theory Spec2Isabelle
  imports Main "HOL-Library.Multiset"
begin

section \<open>Strings\<close>

text \<open>
  A JavaScript string is modelled as a \<^typ>\<open>string\<close>, one \<^typ>\<open>char\<close> per code unit.
  The embedding is exact on ASCII text: \<open>toLowerCase\<close> maps the letters A to Z and leaves
  every other character alone, and \<open>trim\<close> strips the ASCII white space characters
  (tab, line feed, vertical tab, form feed, carriage return, space).
\<close>

definition toLowerChar :: "char \<Rightarrow> char" where
  "toLowerChar c =
     (case map_of (zip ''ABCDEFGHIJKLMNOPQRSTUVWXYZ'' ''abcdefghijklmnopqrstuvwxyz'') c of
        Some l \<Rightarrow> l
      | None \<Rightarrow> c)"

definition toLowerCase :: "string \<Rightarrow> string" where
  "toLowerCase s = map toLowerChar s"

definition isWhiteSpace :: "char \<Rightarrow> bool" where
  "isWhiteSpace c = (c \<in> set [CHR 0x09, CHR 0x0A, CHR 0x0B, CHR 0x0C, CHR 0x0D, CHR '' ''])"

definition trimStart :: "string \<Rightarrow> string" where
  "trimStart s = dropWhile isWhiteSpace s"

definition trim :: "string \<Rightarrow> string" where
  "trim s = rev (dropWhile isWhiteSpace (rev (dropWhile isWhiteSpace s)))"

text \<open>JavaScript truthiness of an optional string: \<open>undefined\<close> and \<open>''\<close> are falsy.\<close>

definition truthy :: "string option \<Rightarrow> bool" where
  "truthy v = (case v of None \<Rightarrow> False | Some s \<Rightarrow> s \<noteq> [])"

definition digitChar :: "nat \<Rightarrow> char" where
  "digitChar d = ''0123456789'' ! d"

text \<open>A natural number in decimal, as a template literal renders it.\<close>

function showNat :: "nat \<Rightarrow> string" where
  "showNat n = (if n < 10 then [digitChar n] else showNat (n div 10) @ [digitChar (n mod 10)])"
  by pat_completeness auto
termination
  by (relation "measure (\<lambda>n. n)") auto

declare showNat.simps [simp del]

text \<open>\<open>startsWith s p\<close>: the string \<open>s\<close> begins with \<open>p\<close>.\<close>

fun startsWith :: "string \<Rightarrow> string \<Rightarrow> bool" where
  "startsWith s [] = True"
| "startsWith [] (p # ps) = False"
| "startsWith (c # cs) (p # ps) = (c = p \<and> startsWith cs ps)"

text \<open>\<open>str_includes s p\<close> is \<open>s.includes(p)\<close>: \<open>p\<close> occurs in \<open>s\<close> as a contiguous substring.\<close>

fun str_includes :: "string \<Rightarrow> string \<Rightarrow> bool" where
  "str_includes [] p = (p = [])"
| "str_includes (c # cs) p = (startsWith (c # cs) p \<or> str_includes cs p)"

section \<open>Data model (lib/db.ts)\<close>

text \<open>
  The value of \<open>parseFloat\<close>: not-a-number, a signed infinity (\<open>True\<close> for the minus
  sign), or the decimal \<open>\<plusminus> m \<times> 10\<^sup>e\<close> that the text denotes (sign, mantissa, exponent),
  which JavaScript then rounds to the nearest double. Rounding keeps the sign, so a
  non-negative decimal stays non-negative.
\<close>

datatype number = NaN | Infinity bool | Finite bool nat int

record Transaction =
  t_id :: string
  t_date :: string
  t_amount :: number
  t_type :: "string option"
  t_beneficiary :: string
  t_purpose :: string
  t_categoryId :: "string option"
  t_conflicts :: "string list option"
  t_originalRow :: "(string \<times> string) list"

record Category =
  c_id :: string
  c_name :: string
  c_color :: string
  c_budget :: number

record Mapping =
  m_id :: string
  m_pattern :: string
  m_categoryId :: string

section \<open>RuleMatcher (lib/matcher.ts)\<close>

record MatchResult =
  r_match :: "string option"
  r_conflicts :: "string list option"

text \<open>A JavaScript \<open>Set\<close> keeps its elements in insertion order: a list without repetition.\<close>

definition setAdd :: "'a \<Rightarrow> 'a list \<Rightarrow> 'a list" where
  "setAdd x s = (if x \<in> set s then s else s @ [x])"

definition mappingMatches :: "Transaction \<Rightarrow> Mapping \<Rightarrow> bool" where
  "mappingMatches tx mapping =
     (let pattern = toLowerCase (m_pattern mapping);
          beneficiary = toLowerCase (t_beneficiary tx);
          purpose = toLowerCase (t_purpose tx)
      in str_includes beneficiary pattern \<or> str_includes purpose pattern)"

text \<open>The \<open>for (const mapping of mappings)\<close> loop, with the set \<open>matches\<close> as accumulator.\<close>

fun collectMatches :: "Transaction \<Rightarrow> Mapping list \<Rightarrow> string list \<Rightarrow> string list" where
  "collectMatches tx [] matches = matches"
| "collectMatches tx (mapping # rest) matches =
     collectMatches tx rest
       (if mappingMatches tx mapping then setAdd (m_categoryId mapping) matches else matches)"

definition relevantText :: "Transaction \<Rightarrow> string" where
  "relevantText tx = toLowerCase (t_beneficiary tx @ '' '' @ t_purpose tx)"

definition normalizedIgnored :: "string list \<Rightarrow> string list" where
  "normalizedIgnored ignoredAccounts =
     filter (\<lambda>acc. length acc > 0) (map (\<lambda>acc. trim (toLowerCase acc)) ignoredAccounts)"

definition isInternal :: "Transaction \<Rightarrow> string list \<Rightarrow> bool" where
  "isInternal tx ignoredAccounts =
     list_ex (\<lambda>acc. str_includes (relevantText tx) acc) (normalizedIgnored ignoredAccounts)"

definition applyMappings :: "Transaction \<Rightarrow> Mapping list \<Rightarrow> string list \<Rightarrow> MatchResult" where
  "applyMappings tx mappings ignoredAccounts =
     (if isInternal tx ignoredAccounts then \<lparr>r_match = Some ''INTERNAL'', r_conflicts = None\<rparr>
      else
        let matches = collectMatches tx mappings [] in
        if length matches = 1 then \<lparr>r_match = Some (hd matches), r_conflicts = None\<rparr>
        else if length matches > 1 then \<lparr>r_match = None, r_conflicts = Some matches\<rparr>
        else \<lparr>r_match = None, r_conflicts = None\<rparr>)"

section \<open>Normalizer (lib/parser.ts)\<close>

subsection \<open>\<open>parseFloat\<close>\<close>

definition isDigit :: "char \<Rightarrow> bool" where
  "isDigit c = (c \<in> set ''0123456789'')"

definition digitVal :: "char \<Rightarrow> nat" where
  "digitVal c = (case map_of (zip ''0123456789'' [0, 1, 2, 3, 4, 5, 6, 7, 8, 9]) c of Some d \<Rightarrow> d | None \<Rightarrow> 0)"

definition decimalValue :: "string \<Rightarrow> nat" where
  "decimalValue ds = foldl (\<lambda>a c. 10 * a + digitVal c) 0 ds"

text \<open>
  The optional exponent part: \<open>e\<close> or \<open>E\<close>, an optional sign, and at least one digit.
  Without a digit the exponent is not part of the longest valid prefix and counts as 0.
\<close>

definition parseExponent :: "string \<Rightarrow> int" where
  "parseExponent s =
     (case s of
        [] \<Rightarrow> 0
      | c # r \<Rightarrow>
          if c = CHR ''e'' \<or> c = CHR ''E'' then
            (case r of
               [] \<Rightarrow> 0
             | sg # r' \<Rightarrow>
                 if sg = CHR ''-'' then - int (decimalValue (takeWhile isDigit r'))
                 else if sg = CHR ''+'' then int (decimalValue (takeWhile isDigit r'))
                 else int (decimalValue (takeWhile isDigit r)))
          else 0)"

text \<open>
  The longest prefix that is an unsigned decimal literal (digits, optional fraction,
  optional exponent; or a dot followed by digits), as mantissa and exponent of ten.
\<close>

definition parseUnsigned :: "string \<Rightarrow> (nat \<times> int) option" where
  "parseUnsigned s =
     (let ip = takeWhile isDigit s; r1 = dropWhile isDigit s in
      if ip \<noteq> [] then
        (case r1 of
           [] \<Rightarrow> Some (decimalValue ip, 0)
         | c # r2 \<Rightarrow>
             if c = CHR ''.'' then
               (let fp = takeWhile isDigit r2; r3 = dropWhile isDigit r2
                in Some (decimalValue (ip @ fp), parseExponent r3 - int (length fp)))
             else Some (decimalValue ip, parseExponent r1))
      else
        (case s of
           [] \<Rightarrow> None
         | c # r2 \<Rightarrow>
             if c = CHR ''.'' then
               (let fp = takeWhile isDigit r2; r3 = dropWhile isDigit r2
                in if fp = [] then None
                   else Some (decimalValue fp, parseExponent r3 - int (length fp)))
             else None))"

definition parseFloat :: "string \<Rightarrow> number" where
  "parseFloat s =
     (let t = trimStart s;
          neg = (case t of [] \<Rightarrow> False | c # r \<Rightarrow> c = CHR ''-'');
          u = (case t of [] \<Rightarrow> [] | c # r \<Rightarrow> if c = CHR ''-'' \<or> c = CHR ''+'' then r else t)
      in if startsWith u ''Infinity'' then Infinity neg
         else (case parseUnsigned u of
                 None \<Rightarrow> NaN
               | Some (m, e) \<Rightarrow> Finite neg m e))"


subsection \<open>\<open>parseBankCSV\<close>\<close>

text \<open>
  A row as PapaParse delivers it with \<open>header: true\<close>: column name and cell text, in
  column order. \<open>field row k\<close> is \<open>row[k]\<close>, \<open>None\<close> for \<open>undefined\<close>.
\<close>

type_synonym Row = "(string \<times> string) list"

definition field :: "Row \<Rightarrow> string \<Rightarrow> string option" where
  "field row k = map_of row k"

record RowError =
  e_row :: Row
  e_error :: string

record ParseResult =
  p_data :: "Transaction list"
  p_errors :: "RowError list"

datatype RowOutcome = Skipped | Failed RowError | Parsed Transaction

text \<open>\<open>v || ''\<close> for an optional string.\<close>

definition orEmpty :: "string option \<Rightarrow> string" where
  "orEmpty v = (case v of None \<Rightarrow> [] | Some s \<Rightarrow> s)"

text \<open>
  The body of the \<open>forEach\<close> callback for one row. The functions \<open>parse\<close>, \<open>isValid\<close>
  and \<open>format\<close> come from the date-fns library; their composition is the parameter
  \<open>parseDate\<close>, which gives the ISO date of a text that is a valid \<open>dd.MM.yyyy\<close> date and
  \<open>None\<close> where \<open>isValid\<close> fails. \<open>now index\<close> is the reading of \<open>Date.now()\<close> while row
  \<open>index\<close> is processed.
\<close>

definition parseRow :: "(string \<Rightarrow> string option) \<Rightarrow> (nat \<Rightarrow> nat) \<Rightarrow> Row \<Rightarrow> nat \<Rightarrow> RowOutcome" where
  "parseRow parseDate now row index =
     (if \<not> truthy (field row ''Value date'') \<or> \<not> truthy (field row ''Amount'') then Skipped
      else
        let dateStr = orEmpty (field row ''Value date'');
            amountStr = orEmpty (field row ''Amount'');
            type = field row ''Debit/Credit'';
            id = (if truthy (field row ''Transaction No.'') then orEmpty (field row ''Transaction No.'')
                  else ''gen-'' @ showNat index @ ''-'' @ showNat (now index))
        in case parseDate dateStr of
             None \<Rightarrow> Failed \<lparr>e_row = row, e_error = ''Invalid date format: '' @ dateStr\<rparr>
           | Some isoDate \<Rightarrow>
               let amount = parseFloat amountStr;
                   beneAccount = field row (''Beneficiary/payer'' @ [CHR 0x27] @ ''s account number'');
                   beneficiary = orEmpty (field row ''Beneficiary/ Payer'');
                   beneficiary = (if truthy beneAccount
                                  then beneficiary @ '' ('' @ orEmpty beneAccount @ '')''
                                  else beneficiary)
               in Parsed \<lparr>t_id = id, t_date = isoDate, t_amount = amount, t_type = type,
                           t_beneficiary = beneficiary,
                           t_purpose = orEmpty (field row ''Purpose of payment''),
                           t_categoryId = None, t_conflicts = None, t_originalRow = row\<rparr>)"

text \<open>\<open>results.data.forEach\<close>, with the arrays \<open>transactions\<close> and \<open>errors\<close> as accumulator.\<close>

fun parseRows ::
  "(string \<Rightarrow> string option) \<Rightarrow> (nat \<Rightarrow> nat) \<Rightarrow> Row list \<Rightarrow> nat \<Rightarrow> ParseResult \<Rightarrow> ParseResult" where
  "parseRows parseDate now [] index acc = acc"
| "parseRows parseDate now (row # rest) index acc =
     parseRows parseDate now rest (Suc index)
       (case parseRow parseDate now row index of
          Skipped \<Rightarrow> acc
        | Failed e \<Rightarrow> acc\<lparr>p_errors := p_errors acc @ [e]\<rparr>
        | Parsed tx \<Rightarrow> acc\<lparr>p_data := p_data acc @ [tx]\<rparr>)"

definition parseBankCSV :: "(string \<Rightarrow> string option) \<Rightarrow> (nat \<Rightarrow> nat) \<Rightarrow> Row list \<Rightarrow> ParseResult" where
  "parseBankCSV parseDate now rows = parseRows parseDate now rows 0 \<lparr>p_data = [], p_errors = []\<rparr>"

text \<open>A date library for the examples: it knows the date of the comment in the source.\<close>

definition exampleDates :: "string \<Rightarrow> string option" where
  "exampleDates = map_of [(''01.02.2024'', ''2024-02-01'')]"

section \<open>\<open>JSON.stringify\<close> on an optional array of strings\<close>

text \<open>
  The characters that \<open>JSON.stringify\<close> escapes inside a string: the double quote, the
  backslash and the control characters below U+0020.
\<close>

definition jsonEscapes :: "(char \<times> string) list" where
  "jsonEscapes =
     [
      (CHR 0x22, [CHR 0x5C, CHR 0x22]), (CHR 0x5C, [CHR 0x5C, CHR 0x5C]), (CHR 0x00, CHR 0x5C # ''u0000''),
      (CHR 0x01, CHR 0x5C # ''u0001''), (CHR 0x02, CHR 0x5C # ''u0002''), (CHR 0x03, CHR 0x5C # ''u0003''),
      (CHR 0x04, CHR 0x5C # ''u0004''), (CHR 0x05, CHR 0x5C # ''u0005''), (CHR 0x06, CHR 0x5C # ''u0006''),
      (CHR 0x07, CHR 0x5C # ''u0007''), (CHR 0x08, CHR 0x5C # ''b''), (CHR 0x09, CHR 0x5C # ''t''),
      (CHR 0x0A, CHR 0x5C # ''n''), (CHR 0x0B, CHR 0x5C # ''u000b''), (CHR 0x0C, CHR 0x5C # ''f''),
      (CHR 0x0D, CHR 0x5C # ''r''), (CHR 0x0E, CHR 0x5C # ''u000e''), (CHR 0x0F, CHR 0x5C # ''u000f''),
      (CHR 0x10, CHR 0x5C # ''u0010''), (CHR 0x11, CHR 0x5C # ''u0011''), (CHR 0x12, CHR 0x5C # ''u0012''),
      (CHR 0x13, CHR 0x5C # ''u0013''), (CHR 0x14, CHR 0x5C # ''u0014''), (CHR 0x15, CHR 0x5C # ''u0015''),
      (CHR 0x16, CHR 0x5C # ''u0016''), (CHR 0x17, CHR 0x5C # ''u0017''), (CHR 0x18, CHR 0x5C # ''u0018''),
      (CHR 0x19, CHR 0x5C # ''u0019''), (CHR 0x1A, CHR 0x5C # ''u001a''), (CHR 0x1B, CHR 0x5C # ''u001b''),
      (CHR 0x1C, CHR 0x5C # ''u001c''), (CHR 0x1D, CHR 0x5C # ''u001d''), (CHR 0x1E, CHR 0x5C # ''u001e''),
      (CHR 0x1F, CHR 0x5C # ''u001f'')]"

definition jsonQuote :: "string \<Rightarrow> string" where
  "jsonQuote s =
     [CHR 0x22] @ concat (map (\<lambda>c. case map_of jsonEscapes c of Some e \<Rightarrow> e | None \<Rightarrow> [c]) s)
       @ [CHR 0x22]"

fun joinComma :: "string list \<Rightarrow> string" where
  "joinComma [] = []"
| "joinComma [x] = x"
| "joinComma (x # y # ys) = x @ '','' @ joinComma (y # ys)"

text \<open>\<open>JSON.stringify(undefined)\<close> is \<open>undefined\<close>: \<open>None\<close>.\<close>

definition jsonStringify :: "string list option \<Rightarrow> string option" where
  "jsonStringify v = map_option (\<lambda>xs. ''['' @ joinComma (map jsonQuote xs) @ '']'') v"

section \<open>Import-time categorization (pages/Import.tsx)\<close>

text \<open>The body of \<open>parseResult.data.forEach\<close> in \<open>handleFileSelect\<close>.\<close>

definition categorizeImported :: "Mapping list \<Rightarrow> string list \<Rightarrow> Transaction \<Rightarrow> Transaction" where
  "categorizeImported mappings ignored tx =
     (if \<not> truthy (t_categoryId tx) then
        let r = applyMappings tx mappings ignored in
        if truthy (r_match r) then tx\<lparr>t_categoryId := r_match r\<rparr>
        else if r_conflicts r \<noteq> None then tx\<lparr>t_conflicts := r_conflicts r\<rparr>
        else if t_type tx = Some ''C'' then tx\<lparr>t_categoryId := Some ''IN''\<rparr>
        else tx
      else tx)"

definition handleFileSelect ::
  "(string \<Rightarrow> string option) \<Rightarrow> (nat \<Rightarrow> nat) \<Rightarrow> Row list \<Rightarrow> Mapping list \<Rightarrow> string list \<Rightarrow> ParseResult" where
  "handleFileSelect parseDate now rows mappings ignored =
     (let parseResult = parseBankCSV parseDate now rows
      in parseResult\<lparr>p_data := map (categorizeImported mappings ignored) (p_data parseResult)\<rparr>)"

section \<open>Batch recompute (pages/Categories.tsx, \<open>handleReapplyRules\<close>)\<close>

text \<open>
  The body of \<open>txs.forEach\<close>, run once the user has confirmed: the transaction after
  the strict update, and the flag \<open>changed\<close>.
\<close>

definition reapplyOne :: "Mapping list \<Rightarrow> string list \<Rightarrow> Transaction \<Rightarrow> Transaction \<times> bool" where
  "reapplyOne maps ignored tx =
     (let r = applyMappings tx maps ignored in
      if truthy (r_match r) then
        (if t_categoryId tx \<noteq> r_match r
            \<or> (case t_conflicts tx of None \<Rightarrow> False | Some cs \<Rightarrow> length cs > 0)
         then (tx\<lparr>t_categoryId := r_match r, t_conflicts := None\<rparr>, True)
         else (tx, False))
      else if r_conflicts r \<noteq> None then
        (if truthy (t_categoryId tx) \<or> jsonStringify (t_conflicts tx) \<noteq> jsonStringify (r_conflicts r)
         then (tx\<lparr>t_categoryId := None, t_conflicts := r_conflicts r\<rparr>, True)
         else (tx, False))
      else if t_type tx = Some ''C'' then
        (if t_categoryId tx \<noteq> Some ''IN''
         then (tx\<lparr>t_categoryId := Some ''IN'', t_conflicts := None\<rparr>, True)
         else (tx, False))
      else
        (if truthy (t_categoryId tx) \<or> t_conflicts tx \<noteq> None
         then (tx\<lparr>t_categoryId := None, t_conflicts := None\<rparr>, True)
         else (tx, False)))"

text \<open>
  The array \<open>txs\<close> after the loop and \<open>updatedCount\<close>. When the count is positive the
  array is written back with \<open>saveTransactions\<close>; otherwise no element was modified.
\<close>

definition handleReapplyRules :: "Transaction list \<Rightarrow> Mapping list \<Rightarrow> string list \<Rightarrow> Transaction list \<times> nat" where
  "handleReapplyRules txs maps ignored =
     (let results = map (reapplyOne maps ignored) txs
      in (map fst results, length (filter snd results)))"

section \<open>The store (lib/db.ts)\<close>

text \<open>
  The three object stores, each a list of records with its key in the \<open>id\<close> field. The
  order of the records within a store is left abstract: \<open>put\<close> replaces the record with
  the same key where it stands and places a new key at the end.
\<close>

record DB =
  db_categories :: "Category list"
  db_transactions :: "Transaction list"
  db_mappings :: "Mapping list"

fun put :: "('a \<Rightarrow> string) \<Rightarrow> 'a \<Rightarrow> 'a list \<Rightarrow> 'a list" where
  "put key v [] = [v]"
| "put key v (x # xs) = (if key x = key v then v # xs else x # put key v xs)"

fun saveTransactions :: "Transaction list \<Rightarrow> DB \<Rightarrow> DB" where
  "saveTransactions [] db = db"
| "saveTransactions (t # ts) db = saveTransactions ts (db\<lparr>db_transactions := put t_id t (db_transactions db)\<rparr>)"

definition addMapping :: "Mapping \<Rightarrow> DB \<Rightarrow> DB" where
  "addMapping mapping db = db\<lparr>db_mappings := put m_id mapping (db_mappings db)\<rparr>"

text \<open>
  Step 2 of \<open>deleteCategory\<close>: the cursor over the index \<open>by-category\<close>, opened on the
  key range \<open>only(id)\<close>, visits the transactions whose \<open>categoryId\<close> is \<open>id\<close> (here \<open>cid\<close>) and stores
  each without that field.
\<close>

fun unsetCategory :: "string \<Rightarrow> Transaction list \<Rightarrow> Transaction list" where
  "unsetCategory cid [] = []"
| "unsetCategory cid (t # ts) =
     (if t_categoryId t = Some cid then t\<lparr>t_categoryId := None\<rparr> else t) # unsetCategory cid ts"

text \<open>Step 3: the cursor over all mappings deletes those of the category.\<close>

fun deleteMappingsOf :: "string \<Rightarrow> Mapping list \<Rightarrow> Mapping list" where
  "deleteMappingsOf cid [] = []"
| "deleteMappingsOf cid (m # ms) =
     (if m_categoryId m = cid then deleteMappingsOf cid ms else m # deleteMappingsOf cid ms)"

text \<open>
  \<open>deleteCategory\<close> runs its three steps inside one read-write IndexedDB transaction over
  the three stores, so it is one step from a state of the store to the next.
\<close>

definition deleteCategory :: "string \<Rightarrow> DB \<Rightarrow> DB" where
  "deleteCategory cid db =
     \<lparr>db_categories = filter (\<lambda>c. c_id c \<noteq> cid) (db_categories db),
      db_transactions = unsetCategory cid (db_transactions db),
      db_mappings = deleteMappingsOf cid (db_mappings db)\<rparr>"

section \<open>Manual resolution (pages/Transactions.tsx, pages/Uncategorized.tsx)\<close>

text \<open>\<open>updateCategory\<close>, on the transactions as loaded from the store.\<close>

definition updateCategory :: "string \<Rightarrow> string \<Rightarrow> DB \<Rightarrow> DB" where
  "updateCategory txId newCategoryId db =
     (case find (\<lambda>t. t_id t = txId) (db_transactions db) of
        None \<Rightarrow> db
      | Some tx \<Rightarrow>
          if t_categoryId tx \<noteq> Some newCategoryId
          then saveTransactions [tx\<lparr>t_categoryId := Some newCategoryId, t_conflicts := None\<rparr>] db
          else db)"

definition handleCategorize :: "string \<Rightarrow> string \<Rightarrow> DB \<Rightarrow> DB" where
  "handleCategorize txId catId db =
     (case find (\<lambda>t. t_id t = txId) (db_transactions db) of
        None \<Rightarrow> db
      | Some tx \<Rightarrow> saveTransactions [tx\<lparr>t_categoryId := Some catId, t_conflicts := None\<rparr>] db)"

section \<open>Rule import (pages/Categories.tsx, \<open>handleImportRules\<close>)\<close>

text \<open>
  An element of the parsed JSON array: \<open>null\<close>, on which reading a property throws; an
  object with its fields \<open>pattern\<close> and \<open>categoryId\<close>, each a string or absent, as the
  interchange format has them; or any other value, which has neither field.
\<close>

datatype ImportedRule = JNull | JRule "string option" "string option" | JOther

datatype ImportOutcome = ImportComplete nat | ImportCancelled | ImportFailed

text \<open>
  The \<open>for (const rule of imported)\<close> loop with the counter \<open>added\<close>; \<open>None\<close> for the
  count when the loop throws. \<open>now k\<close> is the reading of \<open>Date.now()\<close> when the rule
  number \<open>k\<close> is added.
\<close>

fun importLoop :: "string list \<Rightarrow> (nat \<Rightarrow> nat) \<Rightarrow> ImportedRule list \<Rightarrow> nat \<Rightarrow> DB \<Rightarrow> DB \<times> nat option" where
  "importLoop currentPatterns now [] added db = (db, Some added)"
| "importLoop currentPatterns now (JNull # rest) added db = (db, None)"
| "importLoop currentPatterns now (JOther # rest) added db = importLoop currentPatterns now rest added db"
| "importLoop currentPatterns now (JRule pattern categoryId # rest) added db =
     (if \<not> truthy pattern \<or> \<not> truthy categoryId then importLoop currentPatterns now rest added db
      else if orEmpty pattern \<notin> set currentPatterns then
        importLoop currentPatterns now rest (Suc added)
          (addMapping \<lparr>m_id = ''map-imp-'' @ showNat (now added) @ ''-'' @ showNat added,
                       m_pattern = orEmpty pattern, m_categoryId = orEmpty categoryId\<rparr> db)
      else importLoop currentPatterns now rest added db)"

text \<open>
  \<open>content\<close> is the parsed file: \<open>None\<close> when \<open>JSON.parse\<close> throws or the value is not an
  array. \<open>confirmed\<close> is the user's answer to the merge question, and \<open>loaded\<close> the
  mappings held in the page state, from which \<open>currentPatterns\<close> is taken.
\<close>

definition handleImportRules ::
  "Mapping list \<Rightarrow> (nat \<Rightarrow> nat) \<Rightarrow> ImportedRule list option \<Rightarrow> bool \<Rightarrow> DB \<Rightarrow> DB \<times> ImportOutcome" where
  "handleImportRules loaded now content confirmed db =
     (case content of
        None \<Rightarrow> (db, ImportFailed)
      | Some imported \<Rightarrow>
          if \<not> confirmed then (db, ImportCancelled)
          else
            (case importLoop (map m_pattern loaded) now imported 0 db of
               (db', Some added) \<Rightarrow> (db', ImportComplete added)
             | (db', None) \<Rightarrow> (db', ImportFailed)))"

section \<open>Invariants of the data model\<close>

text \<open>A transaction does not have a non-empty \<open>categoryId\<close> and a non-empty \<open>conflicts\<close>.\<close>

definition exclusive :: "Transaction \<Rightarrow> bool" where
  "exclusive tx =
     (\<not> (truthy (t_categoryId tx)
         \<and> (case t_conflicts tx of None \<Rightarrow> False | Some cs \<Rightarrow> cs \<noteq> [])))"

text \<open>Invariant 1: the \<open>categoryId\<close> of a transaction, if set, names an existing category.\<close>

definition transactionsValid :: "DB \<Rightarrow> bool" where
  "transactionsValid db =
     list_all (\<lambda>t. case t_categoryId t of None \<Rightarrow> True
                    | Some c \<Rightarrow> c \<in> set (map c_id (db_categories db))) (db_transactions db)"

text \<open>Invariant 2: the \<open>categoryId\<close> of every mapping names an existing category.\<close>

definition mappingsValid :: "DB \<Rightarrow> bool" where
  "mappingsValid db =
     list_all (\<lambda>m. m_categoryId m \<in> set (map c_id (db_categories db))) (db_mappings db)"

text \<open>An identifier that is empty or consists of white space only.\<close>

definition isBlank :: "string \<Rightarrow> bool" where
  "isBlank acc = list_all isWhiteSpace acc"

section \<open>Example data\<close>

definition accountColumn :: string where
  "accountColumn = ''Beneficiary/payer'' @ [CHR 0x27] @ ''s account number''"

text \<open>A card payment at RIMI whose beneficiary account is LV11.\<close>

definition rimiRow :: Row where
  "rimiRow =
     [(''Account number'', ''LV00''), (''Value date'', ''01.02.2024''),
      (accountColumn, ''LV11''), (''Beneficiary/ Payer'', []),
      (''Debit/Credit'', ''D''), (''Amount'', ''1.09''), (''Transaction No.'', ''ID123''),
      (''Purpose of payment'', ''Karte: ... Pirkums - RIMI MHM ADAZI''), (''Currency'', ''EUR'')]"

definition rimiTx :: Transaction where
  "rimiTx =
     \<lparr>t_id = ''ID123'', t_date = ''2024-02-01'', t_amount = Finite False 109 (- 2),
      t_type = Some ''D'', t_beneficiary = '' (LV11)'',
      t_purpose = ''Karte: ... Pirkums - RIMI MHM ADAZI'',
      t_categoryId = None, t_conflicts = None, t_originalRow = rimiRow\<rparr>"

definition rimiRule :: Mapping where
  "rimiRule = \<lparr>m_id = ''1'', m_pattern = ''RIMI'', m_categoryId = ''cat-1''\<rparr>"

text \<open>A subscription that two rules of different categories match.\<close>

definition netflixTx :: Transaction where
  "netflixTx =
     \<lparr>t_id = ''T1'', t_date = ''2024-02-01'', t_amount = Finite False 1299 (- 2),
      t_type = Some ''D'', t_beneficiary = [], t_purpose = ''NETFLIX SUBSCRIPTION FLIX'',
      t_categoryId = None, t_conflicts = None, t_originalRow = []\<rparr>"

definition netflixRule :: Mapping where
  "netflixRule = \<lparr>m_id = ''map-1'', m_pattern = ''NETFLIX'', m_categoryId = ''cat-a''\<rparr>"

definition flixRule :: Mapping where
  "flixRule = \<lparr>m_id = ''map-2'', m_pattern = ''FLIX'', m_categoryId = ''cat-b''\<rparr>"

section \<open>Predicates of the claims\<close>

text \<open>A row that lacks its date or its amount: the field is absent or the empty text.\<close>

definition missingRequired :: "Row \<Rightarrow> bool" where
  "missingRequired row = (\<not> truthy (field row ''Value date'') \<or> \<not> truthy (field row ''Amount''))"

text \<open>A row with both required fields whose date the date library rejects.\<close>

definition badDate :: "(string \<Rightarrow> string option) \<Rightarrow> Row \<Rightarrow> bool" where
  "badDate parseDate row =
     (\<not> missingRequired row \<and> parseDate (orEmpty (field row ''Value date'')) = None)"

text \<open>The outcome of every row, each at its own index.\<close>

fun outcomes :: "(string \<Rightarrow> string option) \<Rightarrow> (nat \<Rightarrow> nat) \<Rightarrow> Row list \<Rightarrow> nat \<Rightarrow> RowOutcome list" where
  "outcomes parseDate now [] index = []"
| "outcomes parseDate now (row # rest) index =
     parseRow parseDate now row index # outcomes parseDate now rest (Suc index)"

fun parsedOf :: "RowOutcome \<Rightarrow> Transaction list" where
  "parsedOf (Parsed tx) = [tx]"
| "parsedOf _ = []"

fun failedOf :: "RowOutcome \<Rightarrow> RowError list" where
  "failedOf (Failed e) = [e]"
| "failedOf _ = []"

text \<open>Rows for the examples: a footer line, a date with slashes, a negative amount.\<close>

definition footerRow :: Row where
  "footerRow = [(''Account number'', ''Total''), (''Value date'', []), (''Amount'', ''12.50'')]"

definition slashDateRow :: Row where
  "slashDateRow =
     [(''Value date'', ''2024/02/01''), (''Debit/Credit'', ''D''), (''Amount'', ''5.00''),
      (''Transaction No.'', ''ID124''), (''Purpose of payment'', ''Maksa'')]"

definition refundRow :: Row where
  "refundRow =
     [(''Value date'', ''01.02.2024''), (''Debit/Credit'', ''C''), (''Amount'', ''-1.09''),
      (''Transaction No.'', ''ID125''), (''Purpose of payment'', ''Atmaksa'')]"

definition refundTx :: Transaction where
  "refundTx =
     \<lparr>t_id = ''ID125'', t_date = ''2024-02-01'', t_amount = Finite True 109 (- 2),
      t_type = Some ''C'', t_beneficiary = [], t_purpose = ''Atmaksa'',
      t_categoryId = None, t_conflicts = None, t_originalRow = refundRow\<rparr>"


text \<open>A salary payment and a cash withdrawal that no rule matches.\<close>

definition salaryRow :: Row where
  "salaryRow =
     [(''Value date'', ''01.02.2024''), (''Beneficiary/ Payer'', ''SIA DARBS''),
      (''Debit/Credit'', ''C''), (''Amount'', ''1500.00''), (''Transaction No.'', ''ID200''),
      (''Purpose of payment'', ''Alga'')]"

definition salaryTx :: Transaction where
  "salaryTx =
     \<lparr>t_id = ''ID200'', t_date = ''2024-02-01'', t_amount = Finite False 150000 (- 2),
      t_type = Some ''C'', t_beneficiary = ''SIA DARBS'', t_purpose = ''Alga'',
      t_categoryId = None, t_conflicts = None, t_originalRow = salaryRow\<rparr>"

definition cashRow :: Row where
  "cashRow =
     [(''Value date'', ''01.02.2024''), (''Debit/Credit'', ''D''), (''Amount'', ''20.00''),
      (''Transaction No.'', ''ID201''), (''Purpose of payment'', ''Skaidra nauda'')]"

definition cashTx :: Transaction where
  "cashTx =
     \<lparr>t_id = ''ID201'', t_date = ''2024-02-01'', t_amount = Finite False 2000 (- 2),
      t_type = Some ''D'', t_beneficiary = [], t_purpose = ''Skaidra nauda'',
      t_categoryId = None, t_conflicts = None, t_originalRow = cashRow\<rparr>"

text \<open>A store with three categories, two transactions and three rules.\<close>

definition exampleCategories :: "Category list" where
  "exampleCategories =
     [\<lparr>c_id = ''cat-a'', c_name = ''Streaming'', c_color = ''#3b82f6'', c_budget = Finite False 0 0\<rparr>,
      \<lparr>c_id = ''cat-b'', c_name = ''Travel'', c_color = ''#ef4444'', c_budget = Finite False 0 0\<rparr>,
      \<lparr>c_id = ''cat-1'', c_name = ''Groceries'', c_color = ''#22c55e'', c_budget = Finite False 0 0\<rparr>]"

definition conflictTx :: Transaction where
  "conflictTx = netflixTx\<lparr>t_conflicts := Some [''cat-b'', ''cat-a'']\<rparr>"

definition groceryTx :: Transaction where
  "groceryTx = rimiTx\<lparr>t_categoryId := Some ''cat-1''\<rparr>"

definition exampleDB :: DB where
  "exampleDB =
     \<lparr>db_categories = exampleCategories,
      db_transactions = [conflictTx, groceryTx],
      db_mappings = [netflixRule, flixRule, rimiRule]\<rparr>"


text \<open>A rule of the payload that passes the checks of the import loop and is added.\<close>

definition isAdded :: "string list \<Rightarrow> ImportedRule \<Rightarrow> bool" where
  "isAdded currentPatterns rule =
     (case rule of
        JRule pattern categoryId \<Rightarrow>
          truthy pattern \<and> truthy categoryId \<and> orEmpty pattern \<notin> set currentPatterns
      | _ \<Rightarrow> False)"

definition ruleCategory :: "ImportedRule \<Rightarrow> string" where
  "ruleCategory rule = (case rule of JRule pattern categoryId \<Rightarrow> orEmpty categoryId | _ \<Rightarrow> [])"

text \<open>Every rule of the payload that is added names a category of the store.\<close>

definition rulesNameCategories :: "Mapping list \<Rightarrow> ImportedRule list \<Rightarrow> DB \<Rightarrow> bool" where
  "rulesNameCategories loaded imported db =
     list_all (\<lambda>rule. isAdded (map m_pattern loaded) rule
                 \<longrightarrow> ruleCategory rule \<in> set (map c_id (db_categories db))) imported"

text \<open>A payload with a rule for a category that does not exist.\<close>

definition ghostPayload :: "ImportedRule list" where
  "ghostPayload = [JRule (Some ''BOLT'') (Some ''cat-ghost'')]"

definition travelPayload :: "ImportedRule list" where
  "travelPayload = [JRule (Some ''BOLT'') (Some ''cat-b''), JRule (Some ''RIMI'') (Some ''cat-ghost''), JOther]"

section \<open>Evaluation rules\<close>

lemmas eval_str = toLowerCase_def toLowerChar_def trim_def isWhiteSpace_def

lemmas eval_match = applyMappings_def isInternal_def normalizedIgnored_def relevantText_def
  mappingMatches_def setAdd_def

lemmas eval_float = parseFloat_def parseUnsigned_def parseExponent_def trimStart_def isDigit_def
  decimalValue_def digitVal_def

lemmas eval_parse = parseBankCSV_def parseRow_def field_def truthy_def orEmpty_def exampleDates_def
  Let_def

lemmas eval_examples = rimiRow_def rimiTx_def rimiRule_def accountColumn_def
  footerRow_def slashDateRow_def refundRow_def refundTx_def
  salaryRow_def salaryTx_def cashRow_def cashTx_def
  exampleCategories_def conflictTx_def groceryTx_def exampleDB_def
  ghostPayload_def travelPayload_def
  netflixTx_def netflixRule_def flixRule_def

section \<open>Strings: white space and lower case\<close>

lemma toLowerChar_white_iff: "isWhiteSpace (toLowerChar c) \<longleftrightarrow> isWhiteSpace c"
proof (cases "map_of (zip ''ABCDEFGHIJKLMNOPQRSTUVWXYZ'' ''abcdefghijklmnopqrstuvwxyz'') c")
  case None
  then show ?thesis by (simp add: toLowerChar_def)
next
  case (Some l)
  then have "(c, l) \<in> set (zip ''ABCDEFGHIJKLMNOPQRSTUVWXYZ'' ''abcdefghijklmnopqrstuvwxyz'')"
    by (rule map_of_SomeD)
  then have "\<not> isWhiteSpace c \<and> \<not> isWhiteSpace l"
    by (auto simp: isWhiteSpace_def)
  with Some show ?thesis by (simp add: toLowerChar_def)
qed

lemma toLowerCase_blank_iff: "list_all isWhiteSpace (toLowerCase s) \<longleftrightarrow> list_all isWhiteSpace s"
  by (induction s) (simp_all add: toLowerCase_def toLowerChar_white_iff)

lemma trim_eq_Nil_iff: "trim s = [] \<longleftrightarrow> list_all isWhiteSpace s"
proof
  assume "list_all isWhiteSpace s"
  then have "dropWhile isWhiteSpace s = []"
    by (simp add: list_all_iff)
  then show "trim s = []" by (simp only: trim_def rev.simps dropWhile.simps)
next
  assume t: "trim s = []"
  show "list_all isWhiteSpace s"
  proof (rule ccontr)
    assume "\<not> list_all isWhiteSpace s"
    then have ne: "dropWhile isWhiteSpace s \<noteq> []"
      by (simp add: list_all_iff)
    then have "\<not> isWhiteSpace (hd (dropWhile isWhiteSpace s))"
      by (rule hd_dropWhile)
    moreover have "hd (dropWhile isWhiteSpace s) \<in> set (dropWhile isWhiteSpace s)"
      using ne by simp
    ultimately have "dropWhile isWhiteSpace (rev (dropWhile isWhiteSpace s)) \<noteq> []"
      by (auto simp: dropWhile_eq_Nil_conv)
    with t show False by (simp add: trim_def)
  qed
qed

lemma normalized_blank: "trim (toLowerCase acc) = [] \<longleftrightarrow> isBlank acc"
  by (simp add: trim_eq_Nil_iff toLowerCase_blank_iff isBlank_def)

lemma str_includes_Nil: "str_includes s []"
  by (induction s) simp_all

section \<open>RuleMatcher: the set of matched categories\<close>

lemma setAdd_distinct: "distinct s \<Longrightarrow> distinct (setAdd x s)"
  by (simp add: setAdd_def)

lemma setAdd_set: "set (setAdd x s) = insert x (set s)"
  by (auto simp: setAdd_def)

lemma collectMatches_distinct: "distinct acc \<Longrightarrow> distinct (collectMatches tx ms acc)"
  by (induction ms arbitrary: acc) (simp_all add: setAdd_distinct)

lemma collectMatches_set:
  "set (collectMatches tx ms acc) = set acc \<union> m_categoryId ` {m \<in> set ms. mappingMatches tx m}"
  by (induction ms arbitrary: acc) (auto simp: setAdd_set)

lemma collectMatches_perm:
  assumes "mset ms' = mset ms"
  shows "set (collectMatches tx ms' []) = set (collectMatches tx ms [])"
    and "length (collectMatches tx ms' []) = length (collectMatches tx ms [])"
proof -
  have s: "set ms' = set ms" using assms by (rule mset_eq_setD)
  show e: "set (collectMatches tx ms' []) = set (collectMatches tx ms [])"
    by (simp add: collectMatches_set s)
  have "card (set (collectMatches tx ms' [])) = card (set (collectMatches tx ms []))"
    using e by simp
  then show "length (collectMatches tx ms' []) = length (collectMatches tx ms [])"
    by (simp add: distinct_card collectMatches_distinct)
qed

text \<open>
  Claim C3. For every transaction, every list of ignored accounts and every permutation
  of the mapping list, \<open>applyMappings\<close> returns the same result: the same single category
  id, or the same set of conflicting categories, or the same empty result. (The array
  that carries the conflicts lists them in the order in which the rules first match.)
\<close>

theorem applyMappings_permutation:
  assumes "mset mappings' = mset mappings"
  shows "r_match (applyMappings tx mappings' ignoredAccounts)
           = r_match (applyMappings tx mappings ignoredAccounts)
       \<and> map_option set (r_conflicts (applyMappings tx mappings' ignoredAccounts))
           = map_option set (r_conflicts (applyMappings tx mappings ignoredAccounts))"
proof -
  let ?A = "collectMatches tx mappings' []" and ?B = "collectMatches tx mappings []"
  have s: "set ?A = set ?B" and l: "length ?A = length ?B"
    using collectMatches_perm [OF assms] by simp_all
  have h: "hd ?A = hd ?B" if "length ?B = 1"
  proof -
    from that l obtain a b where ab: "?A = [a]" "?B = [b]"
      by (metis One_nat_def length_0_conv length_Suc_conv)
    with s show ?thesis by simp
  qed
  show ?thesis
    using s l h by (simp add: applyMappings_def Let_def)
qed

theorem applyMappings_permutation_witness:
  "mset [flixRule, netflixRule] = mset [netflixRule, flixRule]
   \<and> r_match (applyMappings netflixTx [flixRule, netflixRule] []) = None
   \<and> r_match (applyMappings netflixTx [netflixRule, flixRule] []) = None
   \<and> map_option set (r_conflicts (applyMappings netflixTx [flixRule, netflixRule] []))
       = Some {''cat-a'', ''cat-b''}
   \<and> map_option set (r_conflicts (applyMappings netflixTx [flixRule, netflixRule] []))
       = map_option set (r_conflicts (applyMappings netflixTx [netflixRule, flixRule] []))"
proof -
  have p: "mset [flixRule, netflixRule] = mset [netflixRule, flixRule]"
    by simp
  have v: "applyMappings netflixTx [netflixRule, flixRule] []
             = \<lparr>r_match = None, r_conflicts = Some [''cat-a'', ''cat-b'']\<rparr>"
    by (simp add: eval_examples eval_str eval_match)
  show ?thesis
    using p v applyMappings_permutation [OF p, of netflixTx "[]"] by auto
qed

section \<open>RuleMatcher: the internal-transfer check\<close>

lemma normalizedIgnored_Cons:
  "normalizedIgnored (acc # rest) =
     (if isBlank acc then normalizedIgnored rest
      else trim (toLowerCase acc) # normalizedIgnored rest)"
  using normalized_blank [of acc] by (simp add: normalizedIgnored_def)

lemma normalizedIgnored_Nil: "normalizedIgnored [] = []"
  by (simp add: normalizedIgnored_def)

lemma normalizedIgnored_filter:
  "normalizedIgnored (filter (\<lambda>acc. \<not> isBlank acc) ignoredAccounts) = normalizedIgnored ignoredAccounts"
  by (induction ignoredAccounts) (simp_all add: normalizedIgnored_Cons normalizedIgnored_Nil)

lemma normalizedIgnored_all_blank:
  "list_all isBlank ignoredAccounts \<Longrightarrow> normalizedIgnored ignoredAccounts = []"
  by (induction ignoredAccounts) (simp_all add: normalizedIgnored_Cons normalizedIgnored_Nil)

lemma applyMappings_cong_ignored:
  "normalizedIgnored ign = normalizedIgnored ign' \<Longrightarrow>
     applyMappings tx maps ign = applyMappings tx maps ign'"
  by (simp add: applyMappings_def isInternal_def)

lemma isInternal_I:
  assumes "acc \<in> set ignoredAccounts" and "trim (toLowerCase acc) \<noteq> []"
    and "str_includes (relevantText tx) (trim (toLowerCase acc))"
  shows "isInternal tx ignoredAccounts"
  using assms by (auto simp: isInternal_def normalizedIgnored_def list_ex_iff)

text \<open>
  Claim C10. Ignored-account identifiers that are empty or consist of white space only
  are discarded before the internal-transfer check: \<open>applyMappings\<close> gives the same result
  with and without them, and with a list of blank identifiers only it gives the result
  of the empty list.
\<close>

theorem blank_identifiers_discarded:
  "applyMappings tx mappings ignoredAccounts
     = applyMappings tx mappings (filter (\<lambda>acc. \<not> isBlank acc) ignoredAccounts)
   \<and> (list_all isBlank ignoredAccounts \<longrightarrow>
        applyMappings tx mappings ignoredAccounts = applyMappings tx mappings [])"
proof (intro conjI impI)
  show "applyMappings tx mappings ignoredAccounts
     = applyMappings tx mappings (filter (\<lambda>acc. \<not> isBlank acc) ignoredAccounts)"
    by (rule applyMappings_cong_ignored) (simp add: normalizedIgnored_filter)
next
  assume "list_all isBlank ignoredAccounts"
  then have "normalizedIgnored ignoredAccounts = normalizedIgnored []"
    by (simp add: normalizedIgnored_all_blank normalizedIgnored_Nil)
  then show "applyMappings tx mappings ignoredAccounts = applyMappings tx mappings []"
    by (rule applyMappings_cong_ignored)
qed

theorem blank_identifiers_discarded_witness:
  "list_all isBlank ['''', ''  '', [CHR 0x09]]
   \<and> applyMappings rimiTx [rimiRule] ['''', ''  '', [CHR 0x09]] = applyMappings rimiTx [rimiRule] []
   \<and> applyMappings rimiTx [rimiRule] [] = \<lparr>r_match = Some ''cat-1'', r_conflicts = None\<rparr>"
proof -
  have b: "list_all isBlank ['''', ''  '', [CHR 0x09]]"
    by (simp add: isBlank_def isWhiteSpace_def)
  have v: "applyMappings rimiTx [rimiRule] [] = \<lparr>r_match = Some ''cat-1'', r_conflicts = None\<rparr>"
    by (simp add: eval_examples eval_str eval_match)
  show ?thesis
    using b v blank_identifiers_discarded [of rimiTx "[rimiRule]" "['''', ''  '', [CHR 0x09]]"]
    by simp
qed

text \<open>
  Claim C4, as the code has it. When the lower-cased text of beneficiary and purpose,
  joined by a space, contains a configured account identifier that is not empty after
  lower-casing and trimming, \<open>applyMappings\<close> returns the reserved category \<open>INTERNAL\<close>
  whatever the mapping list is, and the result carries no conflicts. Identifiers that are
  blank are discarded and never make a transaction internal.
\<close>

theorem internal_transfer_priority:
  assumes "acc \<in> set ignoredAccounts" and "trim (toLowerCase acc) \<noteq> []"
    and "str_includes (relevantText tx) (trim (toLowerCase acc))"
  shows "applyMappings tx mappings ignoredAccounts
           = \<lparr>r_match = Some ''INTERNAL'', r_conflicts = None\<rparr>"
  using isInternal_I [OF assms] by (simp add: applyMappings_def)

text \<open>
  The scenario of the claim: with the ignored identifier LV11 and the rule RIMI for
  \<open>cat-1\<close>, the row whose beneficiary account is LV11 and whose purpose contains RIMI is
  parsed to a transaction that resolves to \<open>INTERNAL\<close>, not to \<open>cat-1\<close>.
\<close>

theorem internal_transfer_priority_witness:
  "p_data (parseBankCSV exampleDates (\<lambda>_. 0) [rimiRow]) = [rimiTx]
   \<and> ''LV11'' \<in> set [''LV11'']
   \<and> trim (toLowerCase ''LV11'') \<noteq> []
   \<and> str_includes (relevantText rimiTx) (trim (toLowerCase ''LV11''))
   \<and> applyMappings rimiTx [rimiRule] [''LV11''] = \<lparr>r_match = Some ''INTERNAL'', r_conflicts = None\<rparr>
   \<and> applyMappings rimiTx [rimiRule] [] = \<lparr>r_match = Some ''cat-1'', r_conflicts = None\<rparr>"
proof -
  have a: "p_data (parseBankCSV exampleDates (\<lambda>_. 0) [rimiRow]) = [rimiTx]"
    by (simp add: eval_parse eval_float eval_str eval_examples)
  have m: "''LV11'' \<in> set [''LV11'']"
    by simp
  have n: "trim (toLowerCase ''LV11'') \<noteq> []"
    by (simp add: eval_str)
  have i: "str_includes (relevantText rimiTx) (trim (toLowerCase ''LV11''))"
    by (simp add: eval_examples eval_str relevantText_def)
  have v: "applyMappings rimiTx [rimiRule] [] = \<lparr>r_match = Some ''cat-1'', r_conflicts = None\<rparr>"
    by (simp add: eval_examples eval_str eval_match)
  show ?thesis
    using a m n i v internal_transfer_priority [OF m n i, of "[rimiRule]"] by simp
qed

text \<open>
  The claim as stated fails for a blank identifier: every text contains the empty
  string, yet with the ignored list \<open>['''']\<close> the transaction resolves to \<open>cat-1\<close>.
\<close>

theorem internal_transfer_blank_counterexample:
  "'''' \<in> set ['''']
   \<and> str_includes (relevantText rimiTx) (trim (toLowerCase ''''))
   \<and> applyMappings rimiTx [rimiRule] [''''] = \<lparr>r_match = Some ''cat-1'', r_conflicts = None\<rparr>
   \<and> applyMappings rimiTx [rimiRule] [''''] \<noteq> \<lparr>r_match = Some ''INTERNAL'', r_conflicts = None\<rparr>"
proof -
  have i: "str_includes (relevantText rimiTx) (trim (toLowerCase ''''))"
    by (simp add: eval_str str_includes_Nil)
  have v: "applyMappings rimiTx [rimiRule] [''''] = \<lparr>r_match = Some ''cat-1'', r_conflicts = None\<rparr>"
    by (simp add: eval_examples eval_str eval_match)
  show ?thesis
    using i v by simp
qed

section \<open>Normalizer: rows and their outcomes\<close>

lemma parseRows_outcomes:
  "parseRows pd now rows i acc =
     \<lparr>p_data = p_data acc @ concat (map parsedOf (outcomes pd now rows i)),
      p_errors = p_errors acc @ concat (map failedOf (outcomes pd now rows i))\<rparr>"
  by (induction rows arbitrary: i acc) (simp_all split: RowOutcome.splits)

lemma parseBankCSV_outcomes:
  "p_data (parseBankCSV pd now rows) = concat (map parsedOf (outcomes pd now rows 0))"
  "p_errors (parseBankCSV pd now rows) = concat (map failedOf (outcomes pd now rows 0))"
  by (simp_all add: parseBankCSV_def parseRows_outcomes)

lemma parseRow_Skipped: "parseRow pd now row i = Skipped \<longleftrightarrow> missingRequired row"
  by (auto simp: parseRow_def missingRequired_def Let_def split: option.splits)

lemma parseRow_Failed:
  "(\<exists>e. parseRow pd now row i = Failed e) \<longleftrightarrow> badDate pd row"
  by (auto simp: parseRow_def missingRequired_def badDate_def Let_def split: option.splits)

lemma parseRow_Failed_row: "parseRow pd now row i = Failed e \<Longrightarrow> e_row e = row"
  by (auto simp: parseRow_def Let_def split: option.splits if_splits)

lemma parseRow_Parsed_row: "parseRow pd now row i = Parsed tx \<Longrightarrow> t_originalRow tx = row"
  by (auto simp: parseRow_def Let_def split: option.splits if_splits)

lemma parseRow_Parsed:
  "(\<exists>tx. parseRow pd now row i = Parsed tx) \<longleftrightarrow> \<not> missingRequired row \<and> \<not> badDate pd row"
  by (auto simp: parseRow_def missingRequired_def badDate_def Let_def split: option.splits)

lemma outcomes_data_rows:
  "map t_originalRow (concat (map parsedOf (outcomes pd now rows i)))
     = filter (\<lambda>r. \<not> missingRequired r \<and> \<not> badDate pd r) rows"
proof (induction rows arbitrary: i)
  case Nil
  show ?case by simp
next
  case (Cons row rest)
  show ?case
  proof (cases "parseRow pd now row i")
    case Skipped
    then have "missingRequired row" by (simp add: parseRow_Skipped)
    with Skipped Cons show ?thesis by simp
  next
    case (Failed e)
    then have "badDate pd row" using parseRow_Failed by blast
    with Failed Cons show ?thesis by simp
  next
    case (Parsed tx)
    then have "\<not> missingRequired row \<and> \<not> badDate pd row" using parseRow_Parsed by blast
    with Parsed Cons parseRow_Parsed_row [OF Parsed] show ?thesis by simp
  qed
qed

lemma outcomes_error_rows:
  "map e_row (concat (map failedOf (outcomes pd now rows i))) = filter (badDate pd) rows"
proof (induction rows arbitrary: i)
  case Nil
  show ?case by simp
next
  case (Cons row rest)
  show ?case
  proof (cases "parseRow pd now row i")
    case Skipped
    then have "missingRequired row" by (simp add: parseRow_Skipped)
    then have "\<not> badDate pd row" by (simp add: badDate_def)
    with Skipped Cons show ?thesis by simp
  next
    case (Failed e)
    then have "badDate pd row" using parseRow_Failed by blast
    with Failed Cons parseRow_Failed_row [OF Failed] show ?thesis by simp
  next
    case (Parsed tx)
    then have "\<not> badDate pd row" using parseRow_Parsed by blast
    with Parsed Cons show ?thesis by simp
  qed
qed

lemma outcomes_nth:
  "k < length rows \<Longrightarrow> outcomes pd now rows i ! k = parseRow pd now (rows ! k) (i + k)"
proof (induction rows arbitrary: i k)
  case Nil
  then show ?case by simp
next
  case (Cons row rest)
  then show ?case by (cases k) simp_all
qed

lemma outcomes_length: "length (outcomes pd now rows i) = length rows"
  by (induction rows arbitrary: i) simp_all

lemma parsed_from_row:
  assumes "tx \<in> set (p_data (parseBankCSV pd now rows))"
  shows "\<exists>k < length rows. parseRow pd now (rows ! k) k = Parsed tx"
proof -
  from assms obtain out where o: "out \<in> set (outcomes pd now rows 0)" and t: "tx \<in> set (parsedOf out)"
    by (auto simp: parseBankCSV_outcomes)
  from t have p: "out = Parsed tx" by (cases out) simp_all
  from o obtain k where k: "k < length (outcomes pd now rows 0)" "outcomes pd now rows 0 ! k = out"
    by (auto simp: in_set_conv_nth)
  with p show ?thesis
    by (auto simp: outcomes_length outcomes_nth intro!: exI [of _ k])
qed

text \<open>
  Claim C8. The Normalizer treats each row on its own. A row that lacks its date or its
  amount is skipped and leaves no error entry; a row that has both and whose date the
  fixed format day.month.year rejects is entered in the error list and left out of the
  output; every other row yields a transaction, which is the outcome of that row at its
  index; and transactions and errors stand in the order of their rows.
\<close>

theorem normalizer_partial_success:
  "map t_originalRow (p_data (parseBankCSV parseDate now rows))
     = filter (\<lambda>row. \<not> missingRequired row \<and> \<not> badDate parseDate row) rows
   \<and> map e_row (p_errors (parseBankCSV parseDate now rows)) = filter (badDate parseDate) rows
   \<and> (\<forall>tx \<in> set (p_data (parseBankCSV parseDate now rows)).
        \<exists>k < length rows. parseRow parseDate now (rows ! k) k = Parsed tx)"
  using parsed_from_row [of _ parseDate now rows]
  by (simp add: parseBankCSV_outcomes outcomes_data_rows outcomes_error_rows)

theorem normalizer_partial_success_witness:
  "p_data (parseBankCSV exampleDates (\<lambda>_. 0) [footerRow, slashDateRow, rimiRow]) = [rimiTx]
   \<and> p_errors (parseBankCSV exampleDates (\<lambda>_. 0) [footerRow, slashDateRow, rimiRow])
       = [\<lparr>e_row = slashDateRow, e_error = ''Invalid date format: 2024/02/01''\<rparr>]
   \<and> filter (\<lambda>row. \<not> missingRequired row \<and> \<not> badDate exampleDates row) [footerRow, slashDateRow, rimiRow]
       = [rimiRow]
   \<and> filter (badDate exampleDates) [footerRow, slashDateRow, rimiRow] = [slashDateRow]
   \<and> parseRow exampleDates (\<lambda>_. 0) ([footerRow, slashDateRow, rimiRow] ! 2) 2 = Parsed rimiTx"
proof -
  have d: "p_data (parseBankCSV exampleDates (\<lambda>_. 0) [footerRow, slashDateRow, rimiRow]) = [rimiTx]"
    by (simp add: eval_parse eval_float eval_str eval_examples)
  have e: "p_errors (parseBankCSV exampleDates (\<lambda>_. 0) [footerRow, slashDateRow, rimiRow])
       = [\<lparr>e_row = slashDateRow, e_error = ''Invalid date format: 2024/02/01''\<rparr>]"
    by (simp add: eval_parse eval_float eval_str eval_examples)
  have r: "parseRow exampleDates (\<lambda>_. 0) ([footerRow, slashDateRow, rimiRow] ! 2) 2 = Parsed rimiTx"
    by (simp add: eval_parse eval_float eval_str eval_examples)
  show ?thesis
    using d e r normalizer_partial_success [of exampleDates "\<lambda>_. 0" "[footerRow, slashDateRow, rimiRow]"]
    by (auto simp: rimiTx_def split: if_splits)
qed

section \<open>Normalizer: the amount\<close>










section \<open>The fallback policy\<close>



lemma parseRow_fresh:
  "parseRow pd now row i = Parsed tx \<Longrightarrow> t_categoryId tx = None \<and> t_conflicts tx = None"
  by (auto simp: parseRow_def Let_def split: option.splits if_splits)

lemma parsed_fresh:
  assumes "tx \<in> set (p_data (parseBankCSV pd now rows))"
  shows "t_categoryId tx = None \<and> t_conflicts tx = None"
  using parsed_from_row [OF assms] parseRow_fresh by blast



lemma categorizeImported_text:
  "t_beneficiary (categorizeImported mappings ignored tx) = t_beneficiary tx
   \<and> t_purpose (categorizeImported mappings ignored tx) = t_purpose tx
   \<and> t_type (categorizeImported mappings ignored tx) = t_type tx"
  by (simp add: categorizeImported_def Let_def)



section \<open>Exclusivity of category and conflicts\<close>

lemma categorizeImported_fresh_exclusive:
  assumes "t_categoryId tx = None" and "t_conflicts tx = None"
  shows "exclusive (categorizeImported mappings ignored tx)"
  using assms by (simp add: categorizeImported_def exclusive_def truthy_def Let_def)

lemma handleFileSelect_data:
  "p_data (handleFileSelect pd now rows mappings ignored)
     = map (categorizeImported mappings ignored) (p_data (parseBankCSV pd now rows))"
  by (simp add: handleFileSelect_def Let_def)

lemma import_exclusive:
  "list_all exclusive (p_data (handleFileSelect pd now rows mappings ignored))"
  using parsed_fresh [of _ pd now rows]
  by (simp add: handleFileSelect_data list_all_iff categorizeImported_fresh_exclusive)

lemma reapplyOne_exclusive:
  assumes "exclusive tx"
  shows "exclusive (fst (reapplyOne mappings ignored tx))"
  using assms
  by (auto simp: reapplyOne_def exclusive_def truthy_def Let_def split: option.splits if_splits)

lemma handleReapplyRules_exclusive:
  "list_all exclusive txs \<Longrightarrow> list_all exclusive (fst (handleReapplyRules txs mappings ignored))"
  by (simp add: handleReapplyRules_def Let_def list_all_iff reapplyOne_exclusive)

lemma put_list_all: "list_all P xs \<Longrightarrow> P v \<Longrightarrow> list_all P (put key v xs)"
  by (induction xs) simp_all

lemma saveTransactions_list_all:
  "list_all P (db_transactions db) \<Longrightarrow> list_all P ts \<Longrightarrow>
     list_all P (db_transactions (saveTransactions ts db))"
  by (induction ts arbitrary: db) (simp_all add: put_list_all)

lemma resolved_exclusive: "exclusive (tx\<lparr>t_categoryId := c, t_conflicts := None\<rparr>)"
  by (simp add: exclusive_def)

lemma updateCategory_exclusive:
  "list_all exclusive (db_transactions db) \<Longrightarrow>
     list_all exclusive (db_transactions (updateCategory txId newCategoryId db))"
  by (simp add: updateCategory_def put_list_all resolved_exclusive split: option.splits)

lemma handleCategorize_exclusive:
  "list_all exclusive (db_transactions db) \<Longrightarrow>
     list_all exclusive (db_transactions (handleCategorize txId catId db))"
  by (simp add: handleCategorize_def put_list_all resolved_exclusive split: option.splits)

lemma unsetCategory_exclusive:
  "list_all exclusive ts \<Longrightarrow> list_all exclusive (unsetCategory cid ts)"
  by (induction ts) (simp_all add: exclusive_def truthy_def)

lemma deleteCategory_exclusive:
  "list_all exclusive (db_transactions db) \<Longrightarrow>
     list_all exclusive (db_transactions (deleteCategory cid db))"
  by (simp add: deleteCategory_def unsetCategory_exclusive)

text \<open>
  Claim C1. After each core operation no transaction has both a non-empty \<open>categoryId\<close>
  and a non-empty \<open>conflicts\<close>. Import-time categorization produces only such
  transactions, and saving them keeps the property of the store; manual resolution (on
  either page), batch recompute and category deletion keep it when it held before.
\<close>

theorem exclusivity_preserved:
  "list_all exclusive (p_data (handleFileSelect parseDate now rows mappings ignored))
   \<and> (list_all exclusive (db_transactions db) \<longrightarrow>
        list_all exclusive
          (db_transactions
             (saveTransactions (p_data (handleFileSelect parseDate now rows mappings ignored)) db)))
   \<and> (list_all exclusive (db_transactions db) \<longrightarrow>
        list_all exclusive (db_transactions (updateCategory txId newCategoryId db)))
   \<and> (list_all exclusive (db_transactions db) \<longrightarrow>
        list_all exclusive (db_transactions (handleCategorize txId newCategoryId db)))
   \<and> (list_all exclusive txs \<longrightarrow>
        list_all exclusive (fst (handleReapplyRules txs mappings ignored)))
   \<and> (list_all exclusive (db_transactions db) \<longrightarrow>
        list_all exclusive (db_transactions (deleteCategory cid db)))"
  by (simp add: import_exclusive saveTransactions_list_all updateCategory_exclusive
      handleCategorize_exclusive handleReapplyRules_exclusive deleteCategory_exclusive)

theorem exclusivity_preserved_witness:
  "list_all exclusive (db_transactions exampleDB)
   \<and> p_data (handleFileSelect exampleDates (\<lambda>_. 0) [rimiRow, salaryRow] (db_mappings exampleDB) [])
       = [rimiTx\<lparr>t_categoryId := Some ''cat-1''\<rparr>, salaryTx\<lparr>t_categoryId := Some ''IN''\<rparr>]
   \<and> list_all exclusive (p_data (handleFileSelect exampleDates (\<lambda>_. 0) [rimiRow, salaryRow] (db_mappings exampleDB) []))
   \<and> list_all exclusive
        (db_transactions
           (saveTransactions (p_data (handleFileSelect exampleDates (\<lambda>_. 0) [rimiRow, salaryRow] (db_mappings exampleDB) []))
              exampleDB))
   \<and> db_transactions (updateCategory ''T1'' ''cat-a'' exampleDB)
       = [netflixTx\<lparr>t_categoryId := Some ''cat-a''\<rparr>, groceryTx]
   \<and> list_all exclusive (db_transactions (updateCategory ''T1'' ''cat-a'' exampleDB))
   \<and> list_all exclusive (db_transactions (handleCategorize ''T1'' ''cat-a'' exampleDB))
   \<and> list_all exclusive
        (fst (handleReapplyRules (db_transactions exampleDB) (db_mappings exampleDB) []))
   \<and> db_transactions (deleteCategory ''cat-1'' exampleDB) = [conflictTx, rimiTx]
   \<and> list_all exclusive (db_transactions (deleteCategory ''cat-1'' exampleDB))"
proof -
  have h: "list_all exclusive (db_transactions exampleDB)"
    by (simp add: exclusive_def truthy_def eval_examples)
  have i: "p_data (handleFileSelect exampleDates (\<lambda>_. 0) [rimiRow, salaryRow] (db_mappings exampleDB) [])
       = [rimiTx\<lparr>t_categoryId := Some ''cat-1''\<rparr>, salaryTx\<lparr>t_categoryId := Some ''IN''\<rparr>]"
    by (simp add: handleFileSelect_def categorizeImported_def eval_parse eval_float eval_match
        eval_str eval_examples)
  have u: "db_transactions (updateCategory ''T1'' ''cat-a'' exampleDB)
       = [netflixTx\<lparr>t_categoryId := Some ''cat-a''\<rparr>, groceryTx]"
    by (simp add: updateCategory_def eval_examples)
  have d: "db_transactions (deleteCategory ''cat-1'' exampleDB) = [conflictTx, rimiTx]"
    by (simp add: deleteCategory_def eval_examples)
  show ?thesis
    using h i u d
      exclusivity_preserved [of exampleDates "\<lambda>_. 0" "[rimiRow, salaryRow]" "db_mappings exampleDB" "[]"
        exampleDB "''T1''" "''cat-a''" "db_transactions exampleDB" "''cat-1''"]
    by simp
qed

text \<open>
  Import relies on the Normalizer, whose transactions carry neither field: the loop body
  of \<open>handleFileSelect\<close> sets \<open>categoryId\<close> without clearing \<open>conflicts\<close>, so on a transaction
  that already had conflicts it would not keep the property.
\<close>

lemma categorizeImported_stale_conflicts:
  "exclusive (rimiTx\<lparr>t_conflicts := Some [''cat-a'', ''cat-b'']\<rparr>)
   \<and> \<not> exclusive (categorizeImported [rimiRule] [] (rimiTx\<lparr>t_conflicts := Some [''cat-a'', ''cat-b'']\<rparr>))"
  by (simp add: exclusive_def categorizeImported_def truthy_def eval_match eval_str eval_examples)

section \<open>Cascading deletion\<close>

lemma unsetCategory_map:
  "unsetCategory cid ts = map (\<lambda>t. if t_categoryId t = Some cid then t\<lparr>t_categoryId := None\<rparr> else t) ts"
  by (induction ts) simp_all

lemma deleteMappingsOf_filter:
  "deleteMappingsOf cid ms = filter (\<lambda>m. m_categoryId m \<noteq> cid) ms"
  by (induction ms) simp_all

lemma deleteCategory_transactionsValid:
  assumes "transactionsValid db"
  shows "transactionsValid (deleteCategory cid db)"
  using assms
  by (auto simp: transactionsValid_def deleteCategory_def unsetCategory_map list_all_iff
      split: option.splits)

lemma deleteCategory_mappingsValid:
  assumes "mappingsValid db"
  shows "mappingsValid (deleteCategory cid db)"
  using assms
  by (auto simp: mappingsValid_def deleteCategory_def deleteMappingsOf_filter list_all_iff)

text \<open>
  Claim C2. After \<open>deleteCategory\<close> of a category id, which is one step of the store, the
  category is gone and no other category is touched; the transactions that had this
  \<open>categoryId\<close> have none and are otherwise unchanged, and no transaction has it; the
  mappings of the category are deleted, the others kept; and if every transaction's
  category (invariant 1) or every mapping's category (invariant 2) existed before, it
  exists afterwards.
\<close>

theorem deleteCategory_cascade:
  "db_categories (deleteCategory cid db) = filter (\<lambda>c. c_id c \<noteq> cid) (db_categories db)
   \<and> cid \<notin> set (map c_id (db_categories (deleteCategory cid db)))
   \<and> db_transactions (deleteCategory cid db)
       = map (\<lambda>t. if t_categoryId t = Some cid then t\<lparr>t_categoryId := None\<rparr> else t)
           (db_transactions db)
   \<and> (\<forall>t \<in> set (db_transactions (deleteCategory cid db)). t_categoryId t \<noteq> Some cid)
   \<and> db_mappings (deleteCategory cid db) = filter (\<lambda>m. m_categoryId m \<noteq> cid) (db_mappings db)
   \<and> (\<forall>m \<in> set (db_mappings (deleteCategory cid db)). m_categoryId m \<noteq> cid)
   \<and> (transactionsValid db \<longrightarrow> transactionsValid (deleteCategory cid db))
   \<and> (mappingsValid db \<longrightarrow> mappingsValid (deleteCategory cid db))"
proof (intro conjI)
  show "db_categories (deleteCategory cid db) = filter (\<lambda>c. c_id c \<noteq> cid) (db_categories db)"
    by (simp add: deleteCategory_def)
  show "cid \<notin> set (map c_id (db_categories (deleteCategory cid db)))"
    by (auto simp: deleteCategory_def)
  show "db_transactions (deleteCategory cid db)
       = map (\<lambda>t. if t_categoryId t = Some cid then t\<lparr>t_categoryId := None\<rparr> else t)
           (db_transactions db)"
    by (simp add: deleteCategory_def unsetCategory_map)
  show "\<forall>t \<in> set (db_transactions (deleteCategory cid db)). t_categoryId t \<noteq> Some cid"
    by (auto simp: deleteCategory_def unsetCategory_map)
  show "db_mappings (deleteCategory cid db) = filter (\<lambda>m. m_categoryId m \<noteq> cid) (db_mappings db)"
    by (simp add: deleteCategory_def deleteMappingsOf_filter)
  show "\<forall>m \<in> set (db_mappings (deleteCategory cid db)). m_categoryId m \<noteq> cid"
    by (auto simp: deleteCategory_def deleteMappingsOf_filter)
  show "transactionsValid db \<longrightarrow> transactionsValid (deleteCategory cid db)"
    by (simp add: deleteCategory_transactionsValid)
  show "mappingsValid db \<longrightarrow> mappingsValid (deleteCategory cid db)"
    by (simp add: deleteCategory_mappingsValid)
qed

theorem deleteCategory_cascade_witness:
  "transactionsValid exampleDB \<and> mappingsValid exampleDB
   \<and> deleteCategory ''cat-1'' exampleDB
       = \<lparr>db_categories = [exampleCategories ! 0, exampleCategories ! 1],
          db_transactions = [conflictTx, rimiTx],
          db_mappings = [netflixRule, flixRule]\<rparr>
   \<and> ''cat-1'' \<notin> set (map c_id (db_categories (deleteCategory ''cat-1'' exampleDB)))
   \<and> list_all (\<lambda>t. t_categoryId t \<noteq> Some ''cat-1'')
        (db_transactions (deleteCategory ''cat-1'' exampleDB))
   \<and> list_all (\<lambda>m. m_categoryId m \<noteq> ''cat-1'')
        (db_mappings (deleteCategory ''cat-1'' exampleDB))
   \<and> transactionsValid (deleteCategory ''cat-1'' exampleDB)
   \<and> mappingsValid (deleteCategory ''cat-1'' exampleDB)"
proof -
  have t: "transactionsValid exampleDB"
    by (simp add: transactionsValid_def eval_examples)
  have m: "mappingsValid exampleDB"
    by (simp add: mappingsValid_def eval_examples)
  have d: "deleteCategory ''cat-1'' exampleDB
       = \<lparr>db_categories = [exampleCategories ! 0, exampleCategories ! 1],
          db_transactions = [conflictTx, rimiTx],
          db_mappings = [netflixRule, flixRule]\<rparr>"
    by (simp add: deleteCategory_def eval_examples)
  note c = deleteCategory_cascade [of "''cat-1''" exampleDB]
  from c have c1: "''cat-1'' \<notin> set (map c_id (db_categories (deleteCategory ''cat-1'' exampleDB)))"
    by blast
  from c have c2: "list_all (\<lambda>t. t_categoryId t \<noteq> Some ''cat-1'')
        (db_transactions (deleteCategory ''cat-1'' exampleDB))"
    unfolding list_all_iff by blast
  from c have c3: "list_all (\<lambda>m. m_categoryId m \<noteq> ''cat-1'')
        (db_mappings (deleteCategory ''cat-1'' exampleDB))"
    unfolding list_all_iff by blast
  from c t have c4: "transactionsValid (deleteCategory ''cat-1'' exampleDB)"
    by blast
  from c m have c5: "mappingsValid (deleteCategory ''cat-1'' exampleDB)"
    by blast
  show ?thesis
    by (intro conjI t m d c1 c2 c3 c4 c5)
qed

section \<open>Batch recompute: the change count\<close>









section \<open>Rule import\<close>

lemma addMapping_categories: "db_categories (addMapping m db) = db_categories db"
  by (simp add: addMapping_def)

lemma addMapping_valid:
  "mappingsValid db \<Longrightarrow> m_categoryId m \<in> set (map c_id (db_categories db)) \<Longrightarrow>
     mappingsValid (addMapping m db)"
  by (simp add: mappingsValid_def addMapping_def put_list_all)

lemma importLoop_categories:
  "db_categories (fst (importLoop cp now imported added db)) = db_categories db"
  by (induction cp now imported added db rule: importLoop.induct)
    (simp_all add: addMapping_categories)

lemma importLoop_valid:
  assumes "mappingsValid db"
    and "list_all (\<lambda>rule. isAdded cp rule \<longrightarrow> ruleCategory rule \<in> set (map c_id (db_categories db))) imported"
  shows "mappingsValid (fst (importLoop cp now imported added db))"
  using assms
proof (induction cp now imported added db rule: importLoop.induct)
  case (1 currentPatterns now added db)
  then show ?case by simp
next
  case (2 currentPatterns now rest added db)
  then show ?case by simp
next
  case (3 currentPatterns now rest added db)
  then show ?case by simp
next
  case (4 currentPatterns now pattern categoryId rest added db)
  show ?case
  proof (cases "isAdded currentPatterns (JRule pattern categoryId)")
    case True
    let ?m = "\<lparr>m_id = ''map-imp-'' @ showNat (now added) @ ''-'' @ showNat added,
               m_pattern = orEmpty pattern, m_categoryId = orEmpty categoryId\<rparr>"
    from True "4.prems"(2) have c: "orEmpty categoryId \<in> set (map c_id (db_categories db))"
      by (simp add: ruleCategory_def)
    then have v: "mappingsValid (addMapping ?m db)"
      using "4.prems"(1) by (simp add: addMapping_valid)
    have "mappingsValid (fst (importLoop currentPatterns now rest (Suc added) (addMapping ?m db)))"
      using True "4.prems"(2) v
      by (intro "4.IH"(2)) (simp_all add: isAdded_def addMapping_categories)
    with True show ?thesis by (simp add: isAdded_def)
  next
    case False
    then have "mappingsValid (fst (importLoop currentPatterns now rest added db))"
      using "4.prems"
      by (cases "\<not> truthy pattern \<or> \<not> truthy categoryId")
         (auto simp: isAdded_def intro: "4.IH"(1) "4.IH"(3))
    with False show ?thesis by (auto simp: isAdded_def)
  qed
qed

text \<open>
  What the import keeps: when every rule that is added names a category of the store,
  the mappings remain valid.
\<close>

lemma import_keeps_mappings_valid:
  assumes "mappingsValid db"
    and "case content of None \<Rightarrow> True | Some imported \<Rightarrow> rulesNameCategories loaded imported db"
  shows "mappingsValid (fst (handleImportRules loaded now content confirmed db))"
proof (cases content)
  case None
  with assms(1) show ?thesis by (simp add: handleImportRules_def)
next
  case (Some imported)
  with assms(2) have "rulesNameCategories loaded imported db" by simp
  then have "mappingsValid (fst (importLoop (map m_pattern loaded) now imported 0 db))"
    using assms(1) by (intro importLoop_valid) (simp_all add: rulesNameCategories_def)
  with Some assms(1) show ?thesis
    by (auto simp: handleImportRules_def split: prod.splits option.splits)
qed

lemma showNat_0: "showNat 0 = ''0''"
  by (simp add: showNat.simps digitChar_def)

lemma import_keeps_mappings_valid_example:
  "mappingsValid exampleDB
   \<and> rulesNameCategories [rimiRule] travelPayload exampleDB
   \<and> handleImportRules [rimiRule] (\<lambda>_. 0) (Some travelPayload) True exampleDB
       = (exampleDB\<lparr>db_mappings := [netflixRule, flixRule, rimiRule,
             \<lparr>m_id = ''map-imp-0-0'', m_pattern = ''BOLT'', m_categoryId = ''cat-b''\<rparr>]\<rparr>,
          ImportComplete 1)
   \<and> mappingsValid (fst (handleImportRules [rimiRule] (\<lambda>_. 0) (Some travelPayload) True exampleDB))"
proof -
  have v: "mappingsValid exampleDB"
    by (simp add: mappingsValid_def eval_examples)
  have r: "rulesNameCategories [rimiRule] travelPayload exampleDB"
    by (simp add: rulesNameCategories_def isAdded_def ruleCategory_def truthy_def orEmpty_def
        eval_examples)
  have h: "handleImportRules [rimiRule] (\<lambda>_. 0) (Some travelPayload) True exampleDB
       = (exampleDB\<lparr>db_mappings := [netflixRule, flixRule, rimiRule,
             \<lparr>m_id = ''map-imp-0-0'', m_pattern = ''BOLT'', m_categoryId = ''cat-b''\<rparr>]\<rparr>,
          ImportComplete 1)"
    by (simp add: handleImportRules_def addMapping_def truthy_def orEmpty_def showNat_0
        eval_examples)
  from r have c: "case Some travelPayload of None \<Rightarrow> True
                  | Some imported \<Rightarrow> rulesNameCategories [rimiRule] imported exampleDB"
    by simp
  show ?thesis
    using v r h import_keeps_mappings_valid [OF v c, of "\<lambda>_. 0" True] by simp
qed

text \<open>
  Claim C7. After the rule import every mapping's \<open>categoryId\<close> should name an existing
  category, given that this held before. The import loop adds a rule without looking
  its category up: on a payload with a rule for the absent category \<open>cat-ghost\<close>, the
  store, valid before, holds a mapping of that category afterwards.
\<close>

theorem import_rules_dangling_category:
  "mappingsValid exampleDB
   \<and> handleImportRules (db_mappings exampleDB) (\<lambda>_. 0) (Some ghostPayload) True exampleDB
       = (exampleDB\<lparr>db_mappings := [netflixRule, flixRule, rimiRule,
             \<lparr>m_id = ''map-imp-0-0'', m_pattern = ''BOLT'', m_categoryId = ''cat-ghost''\<rparr>]\<rparr>,
          ImportComplete 1)
   \<and> \<not> mappingsValid (fst (handleImportRules (db_mappings exampleDB) (\<lambda>_. 0) (Some ghostPayload) True exampleDB))"
proof -
  have v: "mappingsValid exampleDB"
    by (simp add: mappingsValid_def eval_examples)
  have h: "handleImportRules (db_mappings exampleDB) (\<lambda>_. 0) (Some ghostPayload) True exampleDB
       = (exampleDB\<lparr>db_mappings := [netflixRule, flixRule, rimiRule,
             \<lparr>m_id = ''map-imp-0-0'', m_pattern = ''BOLT'', m_categoryId = ''cat-ghost''\<rparr>]\<rparr>,
          ImportComplete 1)"
    by (simp add: handleImportRules_def addMapping_def truthy_def orEmpty_def showNat_0
        eval_examples)
  have n: "\<not> mappingsValid (exampleDB\<lparr>db_mappings := [netflixRule, flixRule, rimiRule,
             \<lparr>m_id = ''map-imp-0-0'', m_pattern = ''BOLT'', m_categoryId = ''cat-ghost''\<rparr>]\<rparr>)"
    by (simp add: mappingsValid_def eval_examples)
  show ?thesis
    using v h n by simp
qed

end
